theory Spec2Isabelle
  imports Complex_Main
begin

section \<open>Common Python notions\<close>

text \<open>
  The orchestration code is Python.  Exceptions are values: every function that can
  raise returns a sum whose left injection is the exception, and a \<open>fit\<close> that
  mutates \<open>self\<close> before it raises returns the object as it stood at the raise.
\<close>

datatype py_error =
    NotImplementedError
  | KeyError
  | TypeError
  | ValueError
  | ZeroDivisionError
  | IndexError
  | AttributeError
  | NameError

datatype 's run = Done 's | Fail py_error 's

fun final :: "'s run \<Rightarrow> 's" where
  "final (Done s) = s"
| "final (Fail e s) = s"

fun raised :: "'s run \<Rightarrow> py_error option" where
  "raised (Done s) = None"
| "raised (Fail e s) = Some e"

text \<open>\<^verbatim>\<open>range(n)\<close> for a Python int: empty when \<open>n \<le> 0\<close>.\<close>

definition py_range :: "int \<Rightarrow> int list" where
  "py_range n = map int [0..<nat n]"

text \<open>\<^verbatim>\<open>xs[i]\<close>: a negative index counts from the end, an index out of range raises.\<close>

definition py_index :: "'a list \<Rightarrow> int \<Rightarrow> py_error + 'a" where
  "py_index xs i =
     (if 0 \<le> i \<and> i < int (length xs) then Inr (xs ! nat i)
      else if i < 0 \<and> - int (length xs) \<le> i then Inr (xs ! nat (int (length xs) + i))
      else Inl IndexError)"

text \<open>\<^verbatim>\<open>a // b\<close> on ints: floor division (as \<open>div\<close> on \<open>int\<close>), raising on zero.\<close>

definition py_floordiv :: "int \<Rightarrow> int \<Rightarrow> py_error + int" where
  "py_floordiv a b = (if b \<noteq> 0 then Inr (a div b) else Inl ZeroDivisionError)"

text \<open>\<^verbatim>\<open>str.lower()\<close> on ASCII text: the letters A to Z move to a to z.\<close>

definition lower_char :: "char \<Rightarrow> char" where
  "lower_char c =
     (let n = (of_char c :: nat) in if 65 \<le> n \<and> n \<le> 90 then char_of (n + 32) else c)"

definition lower :: "string \<Rightarrow> string" where
  "lower s = map lower_char s"

text \<open>A distributed table (\<^verbatim>\<open>DTable\<close>) is a list of key-value pairs, keyed by sample id.\<close>

type_synonym 'v table = "(nat \<times> 'v) list"

definition mapValues :: "('v \<Rightarrow> 'u) \<Rightarrow> 'v table \<Rightarrow> 'u table" where
  "mapValues f t = map (\<lambda>(k, v). (k, f v)) t"

section \<open>Hetero boosting: \<^verbatim>\<open>hetero_boosting.py\<close>\<close>

subsection \<open>Data\<close>

text \<open>Class labels are Python ints or strs.\<close>

datatype label = LInt int | LStr string

text \<open>
  \<^verbatim>\<open>federatedml.util.consts\<close> is not part of the sources at hand; the three
  constants the code reads are parameters.
\<close>

record fate_consts =
  PAILLIER :: string
  ITERATIVEAFFINE :: string
  CLASSIFICATION :: string

datatype encrypter = PaillierEncrypt int | IterativeAffineEncrypt int

text \<open>Messages handed to \<^verbatim>\<open>transfer_variable.*.remote\<close>; the stop flag carries its suffix.\<close>

datatype boost_msg = BoosterDimMsg int | StopFlagMsg bool int

text \<open>
  The fields of \<^verbatim>\<open>self\<close> that the orchestration reads or writes.  \<open>sent\<close> is
  the sequence of remote sends, \<open>fit_calls\<close> and \<open>load_calls\<close> the sequences of calls
  of the abstract methods \<^verbatim>\<open>fit_a_booster(epoch_idx, class_idx)\<close> and
  \<^verbatim>\<open>load_booster(meta, param, idx, booster_idx)\<close> (the latter with the list
  position its parameter blob was read from).
\<close>

record ('b, 'm, 'p, 's, 'l) boosting =
  task_type :: string
  boosting_round :: int
  encrypt_method :: string
  key_length :: int
  data_bin :: "'b option"
  y :: "label table"
  classes :: "label list"
  num_classes :: int
  booster_dim :: int
  y_hat :: "'s table"
  init_score :: 's
  encrypter :: "encrypter option"
  booster_meta :: "'m option"
  boosting_model_list :: "'p list"
  history_loss :: "'l list"
  predict_y_hat :: "'s table"
  sent :: "boost_msg list"
  fit_calls :: "(int \<times> int) list"
  load_calls :: "(int \<times> int \<times> int) list"

text \<open>
  The collaborators: abstract methods of the class and delegated helpers of the base
  class, none of them in the sources at hand.  They are parameters; the booster-fitting
  and stop-condition methods read \<^verbatim>\<open>self\<close>.  What the host receives from the guest
  (\<open>recv_booster_dim\<close>, and \<open>recv_stop_flag\<close> by round suffix) is a parameter too.
\<close>

record ('x, 'b, 'm, 'p, 's, 'l, 'o, 'w, 'r) boost_env =
  prepare_data :: "'x table \<Rightarrow> 'b"
  get_label :: "'b \<Rightarrow> label table"
  validate_label :: "'b option \<Rightarrow> int \<times> label list"
  get_init_score :: "label table \<Rightarrow> int \<Rightarrow> 's table \<times> 's"
  fit_a_booster :: "int \<Rightarrow> int \<Rightarrow> ('b, 'm, 'p, 's, 'l) boosting \<Rightarrow> 'o"
  get_model :: "'o \<Rightarrow> 'm \<times> 'p"
  get_sample_weights :: "'o \<Rightarrow> 'w"
  get_new_predict_score :: "'s table \<Rightarrow> 'w \<Rightarrow> int \<Rightarrow> 's table"
  compute_loss :: "'s table \<Rightarrow> label table \<Rightarrow> 'l"
  check_stop_condition :: "('b, 'm, 'p, 's, 'l) boosting \<Rightarrow> 'l \<Rightarrow> bool"
  data_alignment :: "'x table \<Rightarrow> 'x table"
  load_booster :: "'m option \<Rightarrow> 'p \<Rightarrow> int \<Rightarrow> int \<Rightarrow> 'o"
  model_predict :: "'o \<Rightarrow> 'x table \<Rightarrow> 'w"
  score_to_predict_result :: "'x table \<Rightarrow> 's table \<Rightarrow> 'r"
  recv_booster_dim :: int
  recv_stop_flag :: "int \<Rightarrow> bool"

subsection \<open>\<^verbatim>\<open>generate_encrypter\<close>\<close>

definition generate_encrypter ::
  "fate_consts \<Rightarrow> ('b, 'm, 'p, 's, 'l) boosting \<Rightarrow> py_error + ('b, 'm, 'p, 's, 'l) boosting" where
  "generate_encrypter C self =
     (if lower (encrypt_method self) = lower (PAILLIER C)
      then Inr (self\<lparr>encrypter := Some (PaillierEncrypt (key_length self))\<rparr>)
      else if lower (encrypt_method self) = lower (ITERATIVEAFFINE C)
      then Inr (self\<lparr>encrypter := Some (IterativeAffineEncrypt (key_length self))\<rparr>)
      else Inl NotImplementedError)"

subsection \<open>\<^verbatim>\<open>check_label\<close>\<close>

text \<open>
  The loop that decides \<^verbatim>\<open>range_from_zero\<close>.  For a str the comparison
  \<^verbatim>\<open>0 <= _class\<close> raises, the bare \<^verbatim>\<open>except\<close> clears the flag and the loop goes
  on; for an int out of range the flag is cleared and the loop breaks.
\<close>

fun range_from_zero_loop :: "label list \<Rightarrow> nat \<Rightarrow> bool \<Rightarrow> bool" where
  "range_from_zero_loop [] n flag = flag"
| "range_from_zero_loop (LInt i # cs) n flag =
     (if 0 \<le> i \<and> i < int n then range_from_zero_loop cs n flag else False)"
| "range_from_zero_loop (LStr s # cs) n flag = range_from_zero_loop cs n False"

text \<open>
  \<^verbatim>\<open>sorted\<close>: a stable sort by \<^verbatim>\<open><\<close>, which raises between an int and a str.
  Strs compare lexicographically by code point.
\<close>

fun str_lt :: "string \<Rightarrow> string \<Rightarrow> bool" where
  "str_lt [] [] = False"
| "str_lt [] (b # bs) = True"
| "str_lt (a # as) [] = False"
| "str_lt (a # as) (b # bs) =
     ((of_char a :: nat) < of_char b \<or> ((of_char a :: nat) = of_char b \<and> str_lt as bs))"

fun label_lt :: "label \<Rightarrow> label \<Rightarrow> py_error + bool" where
  "label_lt (LInt i) (LInt j) = Inr (i < j)"
| "label_lt (LStr s) (LStr t) = Inr (str_lt s t)"
| "label_lt (LInt i) (LStr t) = Inl TypeError"
| "label_lt (LStr s) (LInt j) = Inl TypeError"

fun insert_sorted :: "label \<Rightarrow> label list \<Rightarrow> py_error + label list" where
  "insert_sorted x [] = Inr [x]"
| "insert_sorted x (c # cs) =
     (case label_lt x c of
        Inl e \<Rightarrow> Inl e
      | Inr True \<Rightarrow> Inr (x # c # cs)
      | Inr False \<Rightarrow> (case insert_sorted x cs of Inl e \<Rightarrow> Inl e | Inr r \<Rightarrow> Inr (c # r)))"

fun sorted_from :: "label list \<Rightarrow> label list \<Rightarrow> py_error + label list" where
  "sorted_from acc [] = Inr acc"
| "sorted_from acc (x # xs) =
     (case insert_sorted x acc of Inl e \<Rightarrow> Inl e | Inr acc' \<Rightarrow> sorted_from acc' xs)"

definition py_sorted :: "label list \<Rightarrow> py_error + label list" where
  "py_sorted xs = sorted_from [] xs"

text \<open>
  \<^verbatim>\<open>dict(zip(keys, range(n)))\<close>: a later pair with the same key replaces an earlier one.
\<close>

definition dict_zip_range :: "label list \<Rightarrow> int \<Rightarrow> (label \<rightharpoonup> int)" where
  "dict_zip_range keys n = map_of (rev (zip keys (py_range n)))"

text \<open>
  \<^verbatim>\<open>self.y.mapValues(lambda _class: class_mapping[_class])\<close>: a label that is not a
  key raises \<^verbatim>\<open>KeyError\<close>.
\<close>

fun remap_labels :: "(label \<rightharpoonup> int) \<Rightarrow> label table \<Rightarrow> py_error + label table" where
  "remap_labels m [] = Inr []"
| "remap_labels m ((k, c) # t) =
     (case m c of
        None \<Rightarrow> Inl KeyError
      | Some i \<Rightarrow> (case remap_labels m t of Inl e \<Rightarrow> Inl e | Inr t' \<Rightarrow> Inr ((k, LInt i) # t')))"

text \<open>
  \<^verbatim>\<open>check_label\<close> returns \<^verbatim>\<open>(classes_, num_classes, booster_dim)\<close> and may replace
  \<^verbatim>\<open>self.y\<close>.  The class mapping is built from the fields \<^verbatim>\<open>self.classes_\<close> and
  \<^verbatim>\<open>self.num_classes\<close>, not from the local variables of the same names.
\<close>

definition check_label ::
  "fate_consts \<Rightarrow> ('x, 'b, 'm, 'p, 's, 'l, 'o, 'w, 'r) boost_env \<Rightarrow> ('b, 'm, 'p, 's, 'l) boosting \<Rightarrow>
     py_error + ((label list \<times> int \<times> int) \<times> ('b, 'm, 'p, 's, 'l) boosting)" where
  "check_label C E self =
     (if task_type self = CLASSIFICATION C then
        (let (num_classes_l, classes_l) = validate_label E (data_bin self);
             booster_dim_l = (if num_classes_l > 2 then num_classes_l else 1);
             range_from_zero = range_from_zero_loop classes_l (length classes_l) True
         in case py_sorted classes_l of
              Inl e \<Rightarrow> Inl e
            | Inr sorted_classes \<Rightarrow>
                if \<not> range_from_zero then
                  (case remap_labels (dict_zip_range (classes self) (num_classes self)) (y self) of
                     Inl e \<Rightarrow> Inl e
                   | Inr y' \<Rightarrow> Inr ((sorted_classes, num_classes_l, booster_dim_l), self\<lparr>y := y'\<rparr>))
                else Inr ((sorted_classes, num_classes_l, booster_dim_l), self))
      else Inr (([], 1, 1), self))"

subsection \<open>Guest: \<^verbatim>\<open>fit\<close>\<close>

definition sync_booster_dim :: "('b, 'm, 'p, 's, 'l) boosting \<Rightarrow> ('b, 'm, 'p, 's, 'l) boosting" where
  "sync_booster_dim self = self\<lparr>sent := sent self @ [BoosterDimMsg (booster_dim self)]\<rparr>"

definition sync_stop_flag ::
  "bool \<Rightarrow> int \<Rightarrow> ('b, 'm, 'p, 's, 'l) boosting \<Rightarrow> ('b, 'm, 'p, 's, 'l) boosting" where
  "sync_stop_flag stop_flag num_round self =
     self\<lparr>sent := sent self @ [StopFlagMsg stop_flag num_round]\<rparr>"

text \<open>The body of the inner loop over \<^verbatim>\<open>class_idx\<close>.\<close>

definition fit_class ::
  "('x, 'b, 'm, 'p, 's, 'l, 'o, 'w, 'r) boost_env \<Rightarrow> int \<Rightarrow> int \<Rightarrow>
     ('b, 'm, 'p, 's, 'l) boosting \<Rightarrow> ('b, 'm, 'p, 's, 'l) boosting" where
  "fit_class E epoch_idx class_idx self =
     (let model = fit_a_booster E epoch_idx class_idx self;
          (meta, param) = get_model E model;
          self1 = self\<lparr>booster_meta := Some meta,
                       boosting_model_list := boosting_model_list self @ [param],
                       fit_calls := fit_calls self @ [(epoch_idx, class_idx)]\<rparr>;
          cur_sample_weights = get_sample_weights E model
      in self1\<lparr>y_hat := get_new_predict_score E (y_hat self1) cur_sample_weights class_idx\<rparr>)"

fun class_loop ::
  "('x, 'b, 'm, 'p, 's, 'l, 'o, 'w, 'r) boost_env \<Rightarrow> int \<Rightarrow> int list \<Rightarrow>
     ('b, 'm, 'p, 's, 'l) boosting \<Rightarrow> ('b, 'm, 'p, 's, 'l) boosting" where
  "class_loop E epoch_idx [] self = self"
| "class_loop E epoch_idx (class_idx # rest) self =
     class_loop E epoch_idx rest (fit_class E epoch_idx class_idx self)"

text \<open>The epoch loop, with its \<^verbatim>\<open>break\<close> on the stop flag.\<close>

fun epoch_loop ::
  "('x, 'b, 'm, 'p, 's, 'l, 'o, 'w, 'r) boost_env \<Rightarrow> int list \<Rightarrow>
     ('b, 'm, 'p, 's, 'l) boosting \<Rightarrow> ('b, 'm, 'p, 's, 'l) boosting" where
  "epoch_loop E [] self = self"
| "epoch_loop E (epoch_idx # rest) self =
     (let self1 = class_loop E epoch_idx (py_range (booster_dim self)) self;
          loss = compute_loss E (y_hat self1) (y self1);
          self2 = self1\<lparr>history_loss := history_loss self1 @ [loss]\<rparr>;
          should_stop = check_stop_condition E self2 loss;
          self3 = sync_stop_flag should_stop epoch_idx self2
      in if should_stop then self3 else epoch_loop E rest self3)"

text \<open>
  \<^verbatim>\<open>HeteroBoostingGuest.fit\<close>.  Logging, metric callbacks, the choice of the loss
  function (it is inside \<open>compute_loss\<close> here) and the validation strategy touch none
  of the fields above and are left out; \<^verbatim>\<open>min(self.history_loss)\<close> in the closing
  callback raises on an empty history.
\<close>

definition guest_fit ::
  "fate_consts \<Rightarrow> ('x, 'b, 'm, 'p, 's, 'l, 'o, 'w, 'r) boost_env \<Rightarrow> ('b, 'm, 'p, 's, 'l) boosting \<Rightarrow> 'x table \<Rightarrow>
     ('b, 'm, 'p, 's, 'l) boosting run" where
  "guest_fit C E self data_inst =
     (let self1 = self\<lparr>data_bin := Some (prepare_data E data_inst)\<rparr>;
          self2 = self1\<lparr>y := get_label E (prepare_data E data_inst)\<rparr>
      in case check_label C E self2 of
           Inl e \<Rightarrow> Fail e self2
         | Inr ((cls, ncls, bdim), self3) \<Rightarrow>
             (let self4 = self3\<lparr>classes := cls, num_classes := ncls, booster_dim := bdim\<rparr>;
                  self5 = sync_booster_dim self4;
                  (yh, sc) = get_init_score E (y self5) (num_classes self5);
                  self6 = self5\<lparr>y_hat := yh, init_score := sc\<rparr>
              in case generate_encrypter C self6 of
                   Inl e \<Rightarrow> Fail e self6
                 | Inr self7 \<Rightarrow>
                     (let self8 = epoch_loop E (py_range (boosting_round self7)) self7
                      in if history_loss self8 = [] then Fail ValueError self8 else Done self8)))"

subsection \<open>Guest: \<^verbatim>\<open>predict\<close>\<close>

text \<open>The body of the inner loop over \<^verbatim>\<open>booster_idx\<close>.\<close>

definition predict_booster ::
  "('x, 'b, 'm, 'p, 's, 'l, 'o, 'w, 'r) boost_env \<Rightarrow> 'x table \<Rightarrow> int \<Rightarrow> int \<Rightarrow>
     ('b, 'm, 'p, 's, 'l) boosting \<Rightarrow> py_error + ('b, 'm, 'p, 's, 'l) boosting" where
  "predict_booster E data_inst idx booster_idx self =
     (case py_index (boosting_model_list self) (idx * booster_dim self + booster_idx) of
        Inl e \<Rightarrow> Inl e
      | Inr param \<Rightarrow>
          (let model = load_booster E (booster_meta self) param idx booster_idx;
               score = model_predict E model data_inst
           in Inr (self\<lparr>predict_y_hat := get_new_predict_score E (predict_y_hat self) score booster_idx,
                         load_calls := load_calls self @
                           [(idx * booster_dim self + booster_idx, idx, booster_idx)]\<rparr>)))"

fun predict_dim_loop ::
  "('x, 'b, 'm, 'p, 's, 'l, 'o, 'w, 'r) boost_env \<Rightarrow> 'x table \<Rightarrow> int \<Rightarrow> int list \<Rightarrow>
     ('b, 'm, 'p, 's, 'l) boosting \<Rightarrow> py_error + ('b, 'm, 'p, 's, 'l) boosting" where
  "predict_dim_loop E data_inst idx [] self = Inr self"
| "predict_dim_loop E data_inst idx (booster_idx # rest) self =
     (case predict_booster E data_inst idx booster_idx self of
        Inl e \<Rightarrow> Inl e
      | Inr self' \<Rightarrow> predict_dim_loop E data_inst idx rest self')"

fun predict_round_loop ::
  "('x, 'b, 'm, 'p, 's, 'l, 'o, 'w, 'r) boost_env \<Rightarrow> 'x table \<Rightarrow> int list \<Rightarrow>
     ('b, 'm, 'p, 's, 'l) boosting \<Rightarrow> py_error + ('b, 'm, 'p, 's, 'l) boosting" where
  "predict_round_loop E data_inst [] self = Inr self"
| "predict_round_loop E data_inst (idx # rest) self =
     (case predict_dim_loop E data_inst idx (py_range (booster_dim self)) self of
        Inl e \<Rightarrow> Inl e
      | Inr self' \<Rightarrow> predict_round_loop E data_inst rest self')"

text \<open>
  \<^verbatim>\<open>HeteroBoostingGuest.predict\<close> returns the prediction result; the object it leaves
  behind is returned with it.
\<close>

definition guest_predict ::
  "('x, 'b, 'm, 'p, 's, 'l, 'o, 'w, 'r) boost_env \<Rightarrow> ('b, 'm, 'p, 's, 'l) boosting \<Rightarrow>
     'x table \<Rightarrow> py_error + ('r \<times> ('b, 'm, 'p, 's, 'l) boosting)" where
  "guest_predict E self data_inst0 =
     (let data_inst = data_alignment E data_inst0;
          self1 = self\<lparr>predict_y_hat := mapValues (\<lambda>v. init_score self) data_inst\<rparr>
      in case py_floordiv (int (length (boosting_model_list self1))) (booster_dim self1) of
           Inl e \<Rightarrow> Inl e
         | Inr rounds \<Rightarrow>
             (case predict_round_loop E data_inst (py_range rounds) self1 of
                Inl e \<Rightarrow> Inl e
              | Inr self2 \<Rightarrow>
                  Inr (score_to_predict_result E data_inst (predict_y_hat self2), self2)))"

subsection \<open>Host: \<^verbatim>\<open>fit\<close> and \<^verbatim>\<open>predict\<close>\<close>










subsection \<open>Rounds, read off the messages\<close>

text \<open>
  The guest sends one stop flag at the end of every round it completes, so the number of
  completed rounds is the number of stop-flag messages sent.
\<close>

fun is_stop_flag :: "boost_msg \<Rightarrow> bool" where
  "is_stop_flag (StopFlagMsg b n) = True"
| "is_stop_flag (BoosterDimMsg d) = False"

definition rounds_completed :: "('b, 'm, 'p, 's, 'l) boosting \<Rightarrow> nat" where
  "rounds_completed self = length (filter is_stop_flag (sent self))"

text \<open>The \<^verbatim>\<open>(epoch_idx, class_idx)\<close> pairs of \<open>r\<close> rounds of \<open>d\<close> boosters, in loop order.\<close>

definition round_dim_pairs :: "int \<Rightarrow> int \<Rightarrow> (int \<times> int) list" where
  "round_dim_pairs r d = concat (map (\<lambda>e. map (Pair e) (py_range d)) (py_range r))"

subsection \<open>A concrete two-class run\<close>

text \<open>
  A small instance of the collaborators, for evaluating the orchestration: two samples
  with labels 0 and 1, boosters identified by their \<^verbatim>\<open>(epoch_idx, class_idx)\<close>, integer
  scores, a loss that adds the scores up and a stop condition that never fires.
\<close>

definition demo_consts :: fate_consts where
  "demo_consts = \<lparr>PAILLIER = ''Paillier'', ITERATIVEAFFINE = ''IterativeAffine'',
     CLASSIFICATION = ''classification''\<rparr>"

definition demo_env ::
  "(label, label table, unit, int \<times> int, int, int, int \<times> int, int, int table) boost_env" where
  "demo_env = \<lparr>
     prepare_data = (\<lambda>t. t),
     get_label = (\<lambda>b. b),
     validate_label = (\<lambda>b. (2, [LInt 0, LInt 1])),
     get_init_score = (\<lambda>y n. (mapValues (\<lambda>c. 0) y, 0)),
     fit_a_booster = (\<lambda>e c self. (e, c)),
     get_model = (\<lambda>model. ((), model)),
     get_sample_weights = (\<lambda>model. fst model + 1),
     get_new_predict_score = (\<lambda>yh w dim. mapValues (\<lambda>s. s + w) yh),
     compute_loss = (\<lambda>yh y. sum_list (map snd yh)),
     check_stop_condition = (\<lambda>self loss. False),
     data_alignment = (\<lambda>t. t),
     load_booster = (\<lambda>meta param idx booster_idx. param),
     model_predict = (\<lambda>model t. fst model + 1),
     score_to_predict_result = (\<lambda>t yh. yh),
     recv_booster_dim = 1,
     recv_stop_flag = (\<lambda>n. False)\<rparr>"

definition demo_self :: "(label table, unit, int \<times> int, int, int) boosting" where
  "demo_self = \<lparr>
     task_type = ''classification'', boosting_round = 2, encrypt_method = ''paillier'',
     key_length = 1024, data_bin = None, y = [], classes = [], num_classes = 1,
     booster_dim = 1, y_hat = [], init_score = 0, encrypter = None, booster_meta = None,
     boosting_model_list = [], history_loss = [], predict_y_hat = [], sent = [],
     fit_calls = [], load_calls = []\<rparr>"

definition demo_data :: "label table" where
  "demo_data = [(0, LInt 0), (1, LInt 1)]"

subsection \<open>Prediction as a replay of the stored ensemble\<close>

text \<open>
  The specification's reading of \<^verbatim>\<open>predict\<close>: one step loads the booster stored at
  position \<open>idx * booster_dim + booster_idx\<close> and adds its score to the accumulator at
  dimension \<open>booster_idx\<close>; the whole replay folds this step over the
  \<open>(round, dim)\<close> pairs of \<open>len(boosting_model_list) // booster_dim\<close> rounds, starting
  from the table that maps every aligned sample to \<open>init_score\<close>, and converts the
  result with \<^verbatim>\<open>score_to_predict_result\<close>.
\<close>

definition replay_step ::
  "('x, 'b, 'm, 'p, 's, 'l, 'o, 'w, 'r) boost_env \<Rightarrow> ('b, 'm, 'p, 's, 'l) boosting \<Rightarrow>
     'x table \<Rightarrow> 's table \<Rightarrow> int \<times> int \<Rightarrow> 's table" where
  "replay_step E self data_inst acc pair =
     (let idx = fst pair; booster_idx = snd pair;
          param = boosting_model_list self ! nat (idx * booster_dim self + booster_idx);
          model = load_booster E (booster_meta self) param idx booster_idx
      in get_new_predict_score E acc (model_predict E model data_inst) booster_idx)"

definition replay_accumulate ::
  "('x, 'b, 'm, 'p, 's, 'l, 'o, 'w, 'r) boost_env \<Rightarrow> ('b, 'm, 'p, 's, 'l) boosting \<Rightarrow>
     'x table \<Rightarrow> 's table" where
  "replay_accumulate E self data_inst =
     foldl (replay_step E self data_inst)
       (mapValues (\<lambda>v. init_score self) data_inst)
       (round_dim_pairs (int (length (boosting_model_list self)) div booster_dim self)
          (booster_dim self))"

definition predict_replay ::
  "('x, 'b, 'm, 'p, 's, 'l, 'o, 'w, 'r) boost_env \<Rightarrow> ('b, 'm, 'p, 's, 'l) boosting \<Rightarrow>
     'x table \<Rightarrow> 'r" where
  "predict_replay E self data_inst0 =
     score_to_predict_result E (data_alignment E data_inst0)
       (replay_accumulate E self (data_alignment E data_inst0))"

text \<open>The list position a \<open>(round, dim)\<close> pair reads, with the pair: an entry of \<open>load_calls\<close>.\<close>

definition load_call :: "int \<Rightarrow> int \<times> int \<Rightarrow> int \<times> int \<times> int" where
  "load_call d pair = (fst pair * d + snd pair, fst pair, snd pair)"

text \<open>
  A trained guest with \<open>booster_dim = 2\<close> and five stored boosters: two whole rounds and
  one booster left over.
\<close>

definition demo_trained :: "(label table, unit, int \<times> int, int, int) boosting" where
  "demo_trained = demo_self\<lparr>booster_dim := 2, booster_meta := Some (),
     boosting_model_list := [(0, 0), (0, 1), (1, 0), (1, 1), (2, 0)]\<rparr>"


text \<open>
  The same fresh guest on two samples labelled 1 and 2: a class set that is not a
  zero-based range.
\<close>

definition demo_env_12 ::
  "(label, label table, unit, int \<times> int, int, int, int \<times> int, int, int table) boost_env" where
  "demo_env_12 = demo_env\<lparr>validate_label := (\<lambda>b. (2, [LInt 1, LInt 2]))\<rparr>"

definition demo_data_12 :: "label table" where
  "demo_data_12 = [(0, LInt 1), (1, LInt 2)]"

section \<open>Hetero FTL, decentralized encrypted guest: \<^verbatim>\<open>hetero_ftl_guest.py\<close>\<close>

subsection \<open>Data\<close>

text \<open>The transfer variables the training loop of \<^verbatim>\<open>HeteroDecentralizedEncryptFTLGuest.fit\<close> names.\<close>

datatype ftl_chan =
    tv_guest_component_list
  | tv_host_component_list
  | tv_masked_enc_guest_gradients
  | tv_masked_enc_loss
  | tv_masked_enc_host_gradients
  | tv_masked_dec_host_gradients
  | tv_masked_dec_guest_gradients
  | tv_masked_dec_loss
  | tv_is_decentralized_enc_ftl_stopped






subsection \<open>One local iteration\<close>



subsection \<open>What one local iteration does\<close>





subsection \<open>One round, and the training loop\<close>







subsection \<open>Reading the trace\<close>










section \<open>Hetero k-means: \<^verbatim>\<open>hetero_kmeans_arbiter.py\<close> and \<^verbatim>\<open>hetero_kmeans_client.py\<close>\<close>

subsection \<open>Messages\<close>

datatype role = GUEST | HOST | ARBITER

datatype km_chan =
    tv_guest_dist
  | tv_host_dist
  | tv_cluster_result
  | tv_guest_tol
  | tv_host_tol
  | tv_arbiter_tol

text \<open>
  The \<^verbatim>\<open>suffix\<close> argument as the call site writes it: left out, an int
  (\<^verbatim>\<open>suffix=self.n_iter_\<close>) or a tuple (\<^verbatim>\<open>suffix=(self.n_iter_,)\<close>).
\<close>

datatype suffix = NoSuffix | IntSuffix int | TupleSuffix "int list"

text \<open>
  Modelled from the spec: the transfer-variable class (the channel primitive) is not part
  of the sources at hand.  A message is matched to a receive by the variable's name and
  the tag, and the tag is the round index given as suffix; an int suffix and a one-element
  tuple suffix name the same tag, and a call that gives no suffix carries the empty tag.
  The destination index selects a party instance; with one guest and one host it plays
  no part.
\<close>

fun fate_tag :: "suffix \<Rightarrow> int list" where
  "fate_tag NoSuffix = []"
| "fate_tag (IntSuffix n) = [n]"
| "fate_tag (TupleSuffix t) = t"

text \<open>
  Tolerances are Python floats; they are only added and compared here, and are modelled
  as rationals.  A distance table maps a sample to its list of distances.
\<close>

datatype 'a km_payload = DistP "rat list table" | AssignP 'a | TolP rat

datatype 'a km_msg = KMsg km_chan suffix role int "'a km_payload"

text \<open>
  Every transfer variable carries one kind of value: the senders hand distance tables to
  \<^verbatim>\<open>guest_dist\<close> and \<^verbatim>\<open>host_dist\<close>, the assignment to \<^verbatim>\<open>cluster_result\<close>, and
  numbers to the three tolerance variables.
\<close>

fun carries :: "km_chan \<Rightarrow> 'a km_payload \<Rightarrow> bool" where
  "carries tv_guest_dist v = (case v of DistP d \<Rightarrow> True | _ \<Rightarrow> False)"
| "carries tv_host_dist v = (case v of DistP d \<Rightarrow> True | _ \<Rightarrow> False)"
| "carries tv_cluster_result v = (case v of AssignP a \<Rightarrow> True | _ \<Rightarrow> False)"
| "carries tv_guest_tol v = (case v of TolP t \<Rightarrow> True | _ \<Rightarrow> False)"
| "carries tv_host_tol v = (case v of TolP t \<Rightarrow> True | _ \<Rightarrow> False)"
| "carries tv_arbiter_tol v = (case v of TolP t \<Rightarrow> True | _ \<Rightarrow> False)"

text \<open>
  \<^verbatim>\<open>get\<close> on a party's inbox: the first message for the party's role with the
  variable's name and the requested tag; without one the party blocks.
\<close>

fun km_get :: "'a km_msg list \<Rightarrow> role \<Rightarrow> km_chan \<Rightarrow> suffix \<Rightarrow> 'a km_payload option" where
  "km_get [] me c s = None"
| "km_get (KMsg c' s' r i v # rest) me c s =
     (if c' = c \<and> r = me \<and> fate_tag s' = fate_tag s \<and> carries c v then Some v
      else km_get rest me c s)"

text \<open>
  How a step or a whole \<^verbatim>\<open>fit\<close> ends: it returns a value, blocks in a \<^verbatim>\<open>get\<close> that no
  message answers, or raises; each with the object as it stands.
\<close>

datatype ('x, 's) km_run = Finished 'x 's | Blocked km_chan "int list" 's | Raised py_error 's

datatype 'x km_end = Returns 'x | Blocks km_chan "int list" | Raises py_error

fun how_ended :: "('x, 's) km_run \<Rightarrow> 'x km_end" where
  "how_ended (Finished x s) = Returns x"
| "how_ended (Blocked c t s) = Blocks c t"
| "how_ended (Raised e s) = Raises e"

fun end_state :: "('x, 's) km_run \<Rightarrow> 's" where
  "end_state (Finished x s) = s"
| "end_state (Blocked c t s) = s"
| "end_state (Raised e s) = s"

subsection \<open>Arbiter\<close>

record 'a arbiter =
  arb_n_iter :: int
  arb_max_iter :: int
  arb_tol :: rat
  arb_inbox :: "'a km_msg list"
  arb_out :: "'a km_msg list"

definition arb_remote :: "'a km_msg \<Rightarrow> 'a arbiter \<Rightarrow> 'a arbiter" where
  "arb_remote m self = self\<lparr>arb_out := arb_out self @ [m]\<rparr>"

text \<open>\<^verbatim>\<open>p1.join(p2, lambda v1, v2: v1 + v2)\<close>: the values are Python lists, which \<^verbatim>\<open>+\<close> concatenates.\<close>

definition join_dist :: "rat list table \<Rightarrow> rat list table \<Rightarrow> rat list table" where
  "join_dist p1 p2 =
     concat (map (\<lambda>(key, v1). case map_of p2 key of None \<Rightarrow> [] | Some v2 \<Rightarrow> [(key, v1 @ v2)]) p1)"

text \<open>
  One pass through the body of the arbiter's \<^verbatim>\<open>while\<close> loop, up to and with the two
  \<^verbatim>\<open>arbiter_tol.remote\<close> calls: it yields the combined tolerance \<open>n\<close>.
  \<^verbatim>\<open>centroid_assign\<close> is the method a subclass supplies (in this class it is
  \<^verbatim>\<open>pass\<close>).  The \<open>get\<close> of a variable delivers the kind of value the variable
  carries, so the last case of each distinction on the kind cannot occur.
\<close>

definition arbiter_round ::
  "(rat list table \<Rightarrow> 'a) \<Rightarrow> 'a arbiter \<Rightarrow> (rat, 'a arbiter) km_run" where
  "arbiter_round centroid_assign self =
     (let r = arb_n_iter self in
      case km_get (arb_inbox self) ARBITER tv_guest_dist (IntSuffix r) of
        None \<Rightarrow> Blocked tv_guest_dist (fate_tag (IntSuffix r)) self
      | Some p1 \<Rightarrow>
      (case km_get (arb_inbox self) ARBITER tv_host_dist (IntSuffix r) of
        None \<Rightarrow> Blocked tv_host_dist (fate_tag (IntSuffix r)) self
      | Some p2 \<Rightarrow>
      (case (p1, p2) of
        (DistP d1, DistP d2) \<Rightarrow>
          (let dist_sum = join_dist d1 d2;
               new_centroid = centroid_assign dist_sum;
               s1 = arb_remote (KMsg tv_cluster_result (IntSuffix r) GUEST (- 1) (AssignP new_centroid)) self;
               s2 = arb_remote (KMsg tv_cluster_result (IntSuffix r) HOST (- 1) (AssignP new_centroid)) s1
           in case km_get (arb_inbox s2) ARBITER tv_guest_tol (IntSuffix r) of
                None \<Rightarrow> Blocked tv_guest_tol (fate_tag (IntSuffix r)) s2
              | Some t1 \<Rightarrow>
              (case km_get (arb_inbox s2) ARBITER tv_host_tol (IntSuffix r) of
                None \<Rightarrow> Blocked tv_host_tol (fate_tag (IntSuffix r)) s2
              | Some t2 \<Rightarrow>
              (case (t1, t2) of
                (TolP tol1, TolP tol2) \<Rightarrow>
                  (let n = tol1 + tol2;
                       s3 = arb_remote (KMsg tv_arbiter_tol NoSuffix HOST (- 1) (TolP n)) s2;
                       s4 = arb_remote (KMsg tv_arbiter_tol NoSuffix GUEST (- 1) (TolP n)) s3
                   in Finished n s4)
              | _ \<Rightarrow> Raised TypeError s2)))
      | _ \<Rightarrow> Raised AttributeError self)))"

lemma arbiter_round_bounds:
  "arbiter_round ca self = Finished n self' \<Longrightarrow>
     arb_n_iter self' = arb_n_iter self \<and> arb_max_iter self' = arb_max_iter self"
  by (auto simp: arbiter_round_def Let_def arb_remote_def
      split: option.splits km_payload.splits)

text \<open>
  The arbiter's \<^verbatim>\<open>fit\<close>: \<open>n\<close> starts as \<^verbatim>\<open>inf\<close> (\<open>None\<close> here), which is greater
  than every tolerance threshold.  The loop breaks on \<open>n < tol\<close> before it counts the
  round.
\<close>

function arbiter_loop ::
  "(rat list table \<Rightarrow> 'a) \<Rightarrow> rat option \<Rightarrow> 'a arbiter \<Rightarrow> (unit, 'a arbiter) km_run" where
  "arbiter_loop ca n self =
     (if arb_n_iter self < arb_max_iter self \<and> (case n of None \<Rightarrow> True | Some x \<Rightarrow> x > arb_tol self)
      then (case arbiter_round ca self of
              Blocked c t s \<Rightarrow> Blocked c t s
            | Raised e s \<Rightarrow> Raised e s
            | Finished n' s \<Rightarrow>
                if n' < arb_tol s then Finished () s
                else arbiter_loop ca (Some n') (s\<lparr>arb_n_iter := arb_n_iter s + 1\<rparr>))
      else Finished () self)"
  by pat_completeness auto
termination
  by (relation "measure (\<lambda>(ca, n, self). nat (arb_max_iter self - arb_n_iter self))")
     (auto dest: arbiter_round_bounds)

declare arbiter_loop.simps [simp del]

definition arbiter_fit :: "(rat list table \<Rightarrow> 'a) \<Rightarrow> 'a arbiter \<Rightarrow> (unit, 'a arbiter) km_run" where
  "arbiter_fit ca self = arbiter_loop ca None self"

subsection \<open>Client (guest and host)\<close>

text \<open>A Python variable that holds a list or \<^verbatim>\<open>None\<close>.\<close>

datatype 'c pylist = PyNone | PyList "'c list"

text \<open>
  The numeric and table work the client delegates: the Euclidean distance of a sample to
  a centroid, the random jitter of a round, and the expression that \<^verbatim>\<open>centroid_cal\<close>
  evaluates for centroid \<open>kk\<close> (filter, join, reduce and the division by the count),
  which may raise.
\<close>

record ('x, 'c, 'a) client_env =
  distance :: "'c \<Rightarrow> 'x \<Rightarrow> rat"
  random_random :: "int \<Rightarrow> rat"
  mean_of_assigned :: "'a \<Rightarrow> 'x table \<Rightarrow> int \<Rightarrow> py_error + 'c"

record ('c, 'a) client =
  cl_role :: role
  cl_n_iter :: int
  cl_max_iter :: int
  cl_k :: int
  cl_centroid_list :: "'c pylist"
  cl_cluster_result :: "'a option"
  cl_inbox :: "'a km_msg list"
  cl_out :: "'a km_msg list"

definition cl_remote :: "'a km_msg \<Rightarrow> ('c, 'a) client \<Rightarrow> ('c, 'a) client" where
  "cl_remote m self = self\<lparr>cl_out := cl_out self @ [m]\<rparr>"

text \<open>\<^verbatim>\<open>self.client_dist\<close> and \<^verbatim>\<open>self.client_tol\<close>, bound by the guest and host subclasses.\<close>

definition client_dist :: "('c, 'a) client \<Rightarrow> km_chan" where
  "client_dist self = (if cl_role self = GUEST then tv_guest_dist else tv_host_dist)"

definition client_tol :: "('c, 'a) client \<Rightarrow> km_chan" where
  "client_tol self = (if cl_role self = GUEST then tv_guest_tol else tv_host_tol)"

text \<open>\<^verbatim>\<open>educl_dist\<close> iterates over the centroid list; iterating over \<^verbatim>\<open>None\<close> raises.\<close>

definition educl_dist ::
  "('x, 'c, 'a) client_env \<Rightarrow> 'x \<Rightarrow> 'c pylist \<Rightarrow> rat \<Rightarrow> py_error + rat list" where
  "educl_dist E u centroid_list rand =
     (case centroid_list of
        PyNone \<Rightarrow> Inl TypeError
      | PyList cs \<Rightarrow> Inr (map (\<lambda>c. distance E c u + rand) cs))"

fun mapValues_raising :: "('v \<Rightarrow> py_error + 'u) \<Rightarrow> 'v table \<Rightarrow> py_error + 'u table" where
  "mapValues_raising f [] = Inr []"
| "mapValues_raising f ((key, v) # t) =
     (case f v of
        Inl e \<Rightarrow> Inl e
      | Inr u \<Rightarrow> (case mapValues_raising f t of Inl e \<Rightarrow> Inl e | Inr t' \<Rightarrow> Inr ((key, u) # t')))"

text \<open>
  \<^verbatim>\<open>centroid_cal\<close>.  The loop body ends with
  \<^verbatim>\<open>centroid_list = centroid_list.append(centroid_k)\<close>: \<^verbatim>\<open>list.append\<close> returns
  \<^verbatim>\<open>None\<close>, so the variable holds \<^verbatim>\<open>None\<close> from the first pass on, and the attribute
  lookup \<^verbatim>\<open>centroid_list.append\<close> of a second pass raises.
\<close>

fun centroid_cal_loop ::
  "('x, 'c, 'a) client_env \<Rightarrow> 'a \<Rightarrow> 'x table \<Rightarrow> int list \<Rightarrow> 'c pylist \<Rightarrow> py_error + 'c pylist" where
  "centroid_cal_loop E cluster_result data_instances [] centroid_list = Inr centroid_list"
| "centroid_cal_loop E cluster_result data_instances (kk # rest) centroid_list =
     (case mean_of_assigned E cluster_result data_instances kk of
        Inl e \<Rightarrow> Inl e
      | Inr centroid_k \<Rightarrow>
          (case centroid_list of
             PyNone \<Rightarrow> Inl AttributeError
           | PyList cs \<Rightarrow> centroid_cal_loop E cluster_result data_instances rest PyNone))"

definition centroid_cal ::
  "('x, 'c, 'a) client_env \<Rightarrow> int \<Rightarrow> 'a \<Rightarrow> 'x table \<Rightarrow> py_error + 'c pylist" where
  "centroid_cal E k cluster_result data_instances =
     centroid_cal_loop E cluster_result data_instances (py_range k) (PyList [])"

text \<open>
  The first half of the client's loop body, lines 78 to 83: distances, their send, the
  receipt of the assignment, the new centroids and the local tolerance.  The tolerance is
  \<^verbatim>\<open>np.sum(...)\<close>, and the module binds no name \<^verbatim>\<open>np\<close> (it has
  \<^verbatim>\<open>from numpy import *\<close>), so the line raises \<^verbatim>\<open>NameError\<close> when it is reached.  The
  value returned would be the tolerance, the new centroids and the assignment.
  \<^verbatim>\<open>cluster_result\<close> carries assignments, so the two cases of another kind cannot
  occur.
\<close>

definition client_round_head ::
  "('x, 'c, 'a) client_env \<Rightarrow> 'x table \<Rightarrow> 'c pylist \<Rightarrow> ('c, 'a) client \<Rightarrow>
     (rat \<times> 'c pylist \<times> 'a, ('c, 'a) client) km_run" where
  "client_round_head E data_instances centroids self =
     (let n = cl_n_iter self; rand = random_random E n in
      case mapValues_raising (\<lambda>u. educl_dist E u centroids rand) data_instances of
        Inl e \<Rightarrow> Raised e self
      | Inr dist_all \<Rightarrow>
          (let s1 = cl_remote (KMsg (client_dist self) (TupleSuffix [n]) ARBITER 0 (DistP dist_all)) self in
           case km_get (cl_inbox s1) (cl_role s1) tv_cluster_result (TupleSuffix [n]) of
             None \<Rightarrow> Blocked tv_cluster_result (fate_tag (TupleSuffix [n])) s1
           | Some (AssignP cluster_result) \<Rightarrow>
               (case centroid_cal E (cl_k s1) cluster_result data_instances of
                  Inl e \<Rightarrow> Raised e s1
                | Inr centroid_new \<Rightarrow> Raised NameError s1)
           | Some (DistP d) \<Rightarrow> Raised AttributeError s1
           | Some (TolP t) \<Rightarrow> Raised AttributeError s1))"

text \<open>\<^verbatim>\<open>tol_tag == 1\<close> on what \<^verbatim>\<open>arbiter_tol.get\<close> delivered.\<close>

fun equals_one :: "'a km_payload \<Rightarrow> bool" where
  "equals_one (TolP x) = (x = 1)"
| "equals_one (DistP d) = False"
| "equals_one (AssignP a) = False"

text \<open>
  The second half, lines 84 to 90: the client stores the new centroids and the
  assignment, sends its tolerance, receives \<^verbatim>\<open>arbiter_tol\<close>, counts the round, and
  breaks when what it received equals 1.  It returns whether it breaks.
\<close>

definition client_round_tail ::
  "rat \<Rightarrow> 'c pylist \<Rightarrow> 'a \<Rightarrow> ('c, 'a) client \<Rightarrow> (bool, ('c, 'a) client) km_run" where
  "client_round_tail tol centroid_new cluster_result self =
     (let n = cl_n_iter self;
          s1 = self\<lparr>cl_centroid_list := centroid_new, cl_cluster_result := Some cluster_result\<rparr>;
          s2 = cl_remote (KMsg (client_tol s1) (TupleSuffix [n]) ARBITER 0 (TolP tol)) s1
      in case km_get (cl_inbox s2) (cl_role s2) tv_arbiter_tol (TupleSuffix [n]) of
           None \<Rightarrow> Blocked tv_arbiter_tol (fate_tag (TupleSuffix [n])) s2
         | Some tol_tag \<Rightarrow> Finished (equals_one tol_tag) (s2\<lparr>cl_n_iter := cl_n_iter s2 + 1\<rparr>))"

definition client_round ::
  "('x, 'c, 'a) client_env \<Rightarrow> 'x table \<Rightarrow> 'c pylist \<Rightarrow> ('c, 'a) client \<Rightarrow>
     (bool, ('c, 'a) client) km_run" where
  "client_round E data_instances centroids self =
     (case client_round_head E data_instances centroids self of
        Blocked c t s \<Rightarrow> Blocked c t s
      | Raised e s \<Rightarrow> Raised e s
      | Finished (tol, centroid_new, cluster_result) s \<Rightarrow>
          client_round_tail tol centroid_new cluster_result s)"

lemma client_round_head_bounds:
  "client_round_head E d c self = Finished x s \<Longrightarrow>
     cl_n_iter s = cl_n_iter self \<and> cl_max_iter s = cl_max_iter self"
  by (auto simp: client_round_head_def Let_def cl_remote_def
      split: sum.splits option.splits km_payload.splits)

lemma client_round_tail_bounds:
  "client_round_tail t cn cr self = Finished b s \<Longrightarrow>
     cl_n_iter s = cl_n_iter self + 1 \<and> cl_max_iter s = cl_max_iter self"
  by (auto simp: client_round_tail_def Let_def cl_remote_def split: option.splits)

lemma client_round_bounds:
  "client_round E d c self = Finished b s \<Longrightarrow>
     cl_n_iter s = cl_n_iter self + 1 \<and> cl_max_iter s = cl_max_iter self"
  by (auto simp: client_round_def split: km_run.splits prod.splits
      dest!: client_round_head_bounds client_round_tail_bounds)

text \<open>
  The client's \<^verbatim>\<open>fit\<close>: \<^verbatim>\<open>centroids = self.get_centroid()\<close> is \<^verbatim>\<open>None\<close> (the method is
  \<^verbatim>\<open>pass\<close>) and is never assigned again.
\<close>

function client_loop ::
  "('x, 'c, 'a) client_env \<Rightarrow> 'x table \<Rightarrow> 'c pylist \<Rightarrow> ('c, 'a) client \<Rightarrow>
     (unit, ('c, 'a) client) km_run" where
  "client_loop E data_instances centroids self =
     (if cl_n_iter self < cl_max_iter self
      then (case client_round E data_instances centroids self of
              Blocked c t s \<Rightarrow> Blocked c t s
            | Raised e s \<Rightarrow> Raised e s
            | Finished stop s \<Rightarrow>
                if stop then Finished () s else client_loop E data_instances centroids s)
      else Finished () self)"
  by pat_completeness auto
termination
  by (relation "measure (\<lambda>(E, d, c, self). nat (cl_max_iter self - cl_n_iter self))")
     (auto dest: client_round_bounds)

declare client_loop.simps [simp del]

definition client_fit ::
  "('x, 'c, 'a) client_env \<Rightarrow> ('c, 'a) client \<Rightarrow> 'x table \<Rightarrow> (unit, ('c, 'a) client) km_run" where
  "client_fit E self data_instances = client_loop E data_instances PyNone self"

subsection \<open>A concrete round\<close>

text \<open>
  Two samples, two centroids.  The arbiter's inbox holds the distance tables and the
  tolerances the two clients would send in round 0; its threshold is 1/2.  The delegated
  client computations are total here and raise nothing.
\<close>

definition demo_assign :: "rat list table \<Rightarrow> nat table" where
  "demo_assign dist_sum = map (\<lambda>(key, ds). (key, key)) dist_sum"

definition demo_arbiter_inbox :: "rat \<Rightarrow> rat \<Rightarrow> nat table km_msg list" where
  "demo_arbiter_inbox tol1 tol2 =
     [KMsg tv_guest_dist (TupleSuffix [0]) ARBITER 0 (DistP [(0, [1, 4]), (1, [3, 2])]),
      KMsg tv_host_dist (TupleSuffix [0]) ARBITER 0 (DistP [(0, [1, 1]), (1, [1, 1])]),
      KMsg tv_guest_tol (TupleSuffix [0]) ARBITER 0 (TolP tol1),
      KMsg tv_host_tol (TupleSuffix [0]) ARBITER 0 (TolP tol2)]"

definition demo_arbiter :: "rat \<Rightarrow> rat \<Rightarrow> nat table arbiter" where
  "demo_arbiter tol1 tol2 =
     \<lparr>arb_n_iter = 0, arb_max_iter = 10, arb_tol = 1 / 2,
      arb_inbox = demo_arbiter_inbox tol1 tol2, arb_out = []\<rparr>"

definition demo_client_env :: "(rat list, int, nat table) client_env" where
  "demo_client_env = \<lparr>distance = (\<lambda>c x. 0), random_random = (\<lambda>n. 0),
     mean_of_assigned = (\<lambda>cluster_result data_instances kk. Inr kk)\<rparr>"

definition demo_client :: "nat table km_msg list \<Rightarrow> (int, nat table) client" where
  "demo_client inbox =
     \<lparr>cl_role = GUEST, cl_n_iter = 0, cl_max_iter = 10, cl_k = 2, cl_centroid_list = PyNone,
      cl_cluster_result = None, cl_inbox = inbox, cl_out = []\<rparr>"

definition demo_points :: "rat list table" where
  "demo_points = [(0, [0, 0]), (1, [2, 2])]"

text \<open>The messages of a transfer variable among a list of messages.\<close>

fun on_chan :: "km_chan \<Rightarrow> 'a km_msg \<Rightarrow> bool" where
  "on_chan c (KMsg c' sf r i v) = (c' = c)"

text \<open>What the arbiter has sent when its \<^verbatim>\<open>fit\<close> on the concrete inbox ends.\<close>

definition demo_arbiter_out :: "rat \<Rightarrow> rat \<Rightarrow> nat table km_msg list" where
  "demo_arbiter_out tol1 tol2 = arb_out (end_state (arbiter_fit demo_assign (demo_arbiter tol1 tol2)))"

section \<open>Hetero boosting: the guest's training loop\<close>

lemma fit_class_fields:
  "length (boosting_model_list (fit_class E e c self)) = Suc (length (boosting_model_list self))"
  "history_loss (fit_class E e c self) = history_loss self"
  "sent (fit_class E e c self) = sent self"
  "booster_dim (fit_class E e c self) = booster_dim self"
  "fit_calls (fit_class E e c self) = fit_calls self @ [(e, c)]"
  by (simp_all add: fit_class_def Let_def split: prod.splits)

lemma class_loop_fields:
  "length (boosting_model_list (class_loop E e cs self)) = length (boosting_model_list self) + length cs"
  "history_loss (class_loop E e cs self) = history_loss self"
  "sent (class_loop E e cs self) = sent self"
  "booster_dim (class_loop E e cs self) = booster_dim self"
  "fit_calls (class_loop E e cs self) = fit_calls self @ map (Pair e) cs"
  by (induction cs arbitrary: self) (simp_all add: fit_class_fields)

lemma rounds_sync_stop_flag:
  "rounds_completed (sync_stop_flag b n self) = Suc (rounds_completed self)"
  by (simp add: rounds_completed_def sync_stop_flag_def)

lemma epoch_loop_booster_dim: "booster_dim (epoch_loop E es self) = booster_dim self"
  by (induction es arbitrary: self) (simp_all add: Let_def class_loop_fields sync_stop_flag_def)

lemma epoch_loop_rounds_ge:
  "rounds_completed self \<le> rounds_completed (epoch_loop E es self)"
proof (induction es arbitrary: self)
  case Nil
  show ?case by simp
next
  case (Cons e es)
  let ?s1 = "class_loop E e (py_range (booster_dim self)) self"
  let ?l = "compute_loss E (y_hat ?s1) (y ?s1)"
  let ?s2 = "?s1\<lparr>history_loss := history_loss ?s1 @ [?l]\<rparr>"
  let ?s3 = "sync_stop_flag (check_stop_condition E ?s2 ?l) e ?s2"
  have r3: "rounds_completed ?s3 = Suc (rounds_completed self)"
    by (simp add: rounds_sync_stop_flag) (simp add: rounds_completed_def class_loop_fields)
  show ?case
  proof (cases "check_stop_condition E ?s2 ?l")
    case True
    then show ?thesis using r3 by (simp add: Let_def)
  next
    case False
    have "rounds_completed ?s3 \<le> rounds_completed (epoch_loop E es ?s3)" by (rule Cons.IH)
    then show ?thesis using False r3 by (simp add: Let_def)
  qed
qed

lemma epoch_loop_counts:
  fixes self :: "('b, 'm, 'p, 's, 'l) boosting"
  defines "d \<equiv> booster_dim self"
  shows "let self' = epoch_loop E es self; r = rounds_completed self' - rounds_completed self in
     r \<le> length es \<and>
     length (boosting_model_list self') = length (boosting_model_list self) + r * nat d \<and>
     length (history_loss self') = length (history_loss self) + r \<and>
     fit_calls self' = fit_calls self @ concat (map (\<lambda>e. map (Pair e) (py_range d)) (take r es))"
  unfolding d_def
proof (induction es arbitrary: self)
  case Nil
  show ?case by simp
next
  case (Cons e es)
  let ?d = "booster_dim self"
  let ?s1 = "class_loop E e (py_range ?d) self"
  let ?l = "compute_loss E (y_hat ?s1) (y ?s1)"
  let ?s2 = "?s1\<lparr>history_loss := history_loss ?s1 @ [?l]\<rparr>"
  let ?s3 = "sync_stop_flag (check_stop_condition E ?s2 ?l) e ?s2"
  have r3: "rounds_completed ?s3 = Suc (rounds_completed self)"
    by (simp add: rounds_sync_stop_flag) (simp add: rounds_completed_def class_loop_fields)
  have b3: "length (boosting_model_list ?s3) = length (boosting_model_list self) + nat ?d"
    by (simp add: sync_stop_flag_def class_loop_fields py_range_def)
  have h3: "length (history_loss ?s3) = Suc (length (history_loss self))"
    by (simp add: sync_stop_flag_def class_loop_fields)
  have f3: "fit_calls ?s3 = fit_calls self @ map (Pair e) (py_range ?d)"
    by (simp add: sync_stop_flag_def class_loop_fields)
  have d3: "booster_dim ?s3 = ?d"
    by (simp add: sync_stop_flag_def class_loop_fields)
  show ?case
  proof (cases "check_stop_condition E ?s2 ?l")
    case True
    then have eq: "epoch_loop E (e # es) self = ?s3" by (simp add: Let_def)
    show ?thesis unfolding eq Let_def using r3 b3 h3 f3 by simp
  next
    case False
    then have eq: "epoch_loop E (e # es) self = epoch_loop E es ?s3" by (simp add: Let_def)
    let ?s' = "epoch_loop E es ?s3"
    let ?r = "rounds_completed ?s' - rounds_completed ?s3"
    have ge: "rounds_completed ?s3 \<le> rounds_completed ?s'" by (rule epoch_loop_rounds_ge)
    have IH: "?r \<le> length es \<and>
       length (boosting_model_list ?s') = length (boosting_model_list ?s3) + ?r * nat (booster_dim ?s3) \<and>
       length (history_loss ?s') = length (history_loss ?s3) + ?r \<and>
       fit_calls ?s' = fit_calls ?s3 @ concat (map (\<lambda>e. map (Pair e) (py_range (booster_dim ?s3))) (take ?r es))"
      using Cons.IH[of ?s3] by (simp only: Let_def)
    have rr: "rounds_completed ?s' - rounds_completed self = Suc ?r"
      using ge r3 by simp
    show ?thesis unfolding eq Let_def rr using IH b3 h3 f3 d3 by simp
  qed
qed

lemma check_label_booster_dim:
  "check_label C E self = Inr ((cls, ncls, bdim), self') \<Longrightarrow> 1 \<le> bdim"
  by (auto simp: check_label_def Let_def split: if_splits prod.splits sum.splits)

lemma check_label_untouched:
  "check_label C E self = Inr (res, self') \<Longrightarrow>
     boosting_model_list self' = boosting_model_list self \<and> history_loss self' = history_loss self \<and>
     sent self' = sent self \<and> fit_calls self' = fit_calls self \<and>
     boosting_round self' = boosting_round self"
  by (auto simp: check_label_def Let_def split: if_splits prod.splits sum.splits)

lemma generate_encrypter_untouched:
  "generate_encrypter C self = Inr self' \<Longrightarrow>
     boosting_model_list self' = boosting_model_list self \<and> history_loss self' = history_loss self \<and>
     sent self' = sent self \<and> fit_calls self' = fit_calls self \<and> booster_dim self' = booster_dim self \<and>
     boosting_round self' = boosting_round self"
  by (auto simp: generate_encrypter_def split: if_splits)

lemma take_py_range: "r \<le> nat n \<Longrightarrow> take r (py_range n) = py_range (int r)"
  by (simp add: py_range_def take_map)

lemma round_dim_pairs_0 [simp]: "round_dim_pairs 0 d = []"
  by (simp add: round_dim_pairs_def py_range_def)

text \<open>
  Claim C1.  Whatever a guest \<^verbatim>\<open>fit\<close> starts from and however it ends (the loop ran to
  its bound, stopped early, or \<^verbatim>\<open>fit\<close> raised), with \<open>r\<close> the rounds it completed (the
  stop flags it sent) and \<open>d\<close> its booster dimension: it called \<^verbatim>\<open>fit_a_booster\<close>
  once for each (epoch, class) pair of \<open>r\<close> rounds, in loop order, appended one
  parameter blob per call and one loss per round, and \<open>r\<close> is at most
  \<^verbatim>\<open>boosting_round\<close>.  From empty lists, \<open>len(boosting_model_list) = r * d\<close> and
  \<open>len(history_loss) = r\<close> on exit.
\<close>

theorem guest_fit_one_booster_per_round_and_class:
  "let self' = final (guest_fit C E self data_inst);
       r = rounds_completed self' - rounds_completed self; d = booster_dim self'
   in int (length (boosting_model_list self')) = int (length (boosting_model_list self)) + int r * d \<and>
      length (history_loss self') = length (history_loss self) + r \<and>
      fit_calls self' = fit_calls self @ round_dim_pairs (int r) d \<and>
      int r \<le> max 0 (boosting_round self)"
proof -
  let ?s2 = "self\<lparr>data_bin := Some (prepare_data E data_inst),
                    y := get_label E (prepare_data E data_inst)\<rparr>"
  show ?thesis
  proof (cases "check_label C E ?s2")
    case (Inl e)
    then have "guest_fit C E self data_inst = Fail e ?s2"
      by (simp add: guest_fit_def Let_def)
    then show ?thesis by (simp add: Let_def rounds_completed_def)
  next
    case (Inr res)
    obtain cls ncls bdim s3 where res: "res = ((cls, ncls, bdim), s3)"
      by (cases res) auto
    have cl: "check_label C E ?s2 = Inr ((cls, ncls, bdim), s3)" using Inr res by simp
    have bd: "1 \<le> bdim" using check_label_booster_dim[OF cl] .
    have u3: "boosting_model_list s3 = boosting_model_list self \<and> history_loss s3 = history_loss self \<and>
        sent s3 = sent self \<and> fit_calls s3 = fit_calls self"
      using check_label_untouched[OF cl] by simp
    let ?s5 = "sync_booster_dim (s3\<lparr>classes := cls, num_classes := ncls, booster_dim := bdim\<rparr>)"
    let ?s6 = "?s5\<lparr>y_hat := fst (get_init_score E (y ?s5) (num_classes ?s5)),
                     init_score := snd (get_init_score E (y ?s5) (num_classes ?s5))\<rparr>"
    have u6: "boosting_model_list ?s6 = boosting_model_list self \<and>
        history_loss ?s6 = history_loss self \<and> fit_calls ?s6 = fit_calls self \<and>
        rounds_completed ?s6 = rounds_completed self \<and> booster_dim ?s6 = bdim"
      using u3 by (simp add: sync_booster_dim_def rounds_completed_def)
    show ?thesis
    proof (cases "generate_encrypter C ?s6")
      case (Inl e)
      then have "guest_fit C E self data_inst = Fail e ?s6"
        using cl by (simp add: guest_fit_def Let_def split_beta)
      then show ?thesis using u6 by (simp add: Let_def)
    next
      case (Inr s7)
      have u7: "boosting_model_list s7 = boosting_model_list self \<and>
          history_loss s7 = history_loss self \<and> fit_calls s7 = fit_calls self \<and>
          rounds_completed s7 = rounds_completed self \<and> booster_dim s7 = bdim"
        using generate_encrypter_untouched[OF Inr] u6 by (simp add: rounds_completed_def)
      have br: "boosting_round s7 = boosting_round self"
        using generate_encrypter_untouched[OF Inr] check_label_untouched[OF cl]
        by (simp add: sync_booster_dim_def)
      let ?s8 = "epoch_loop E (py_range (boosting_round s7)) s7"
      have fin: "final (guest_fit C E self data_inst) = ?s8"
        using cl Inr by (simp add: guest_fit_def Let_def split_beta)
      let ?r = "rounds_completed ?s8 - rounds_completed self"
      have cnt: "?r \<le> length (py_range (boosting_round s7)) \<and>
          length (boosting_model_list ?s8) = length (boosting_model_list self) + ?r * nat bdim \<and>
          length (history_loss ?s8) = length (history_loss self) + ?r \<and>
          fit_calls ?s8 = fit_calls self @
            concat (map (\<lambda>e. map (Pair e) (py_range bdim)) (take ?r (py_range (boosting_round s7))))"
        using epoch_loop_counts[of E "py_range (boosting_round s7)" s7] u7
        by (simp add: Let_def)
      have le: "?r \<le> nat (boosting_round self)" using cnt br by (simp add: py_range_def)
      have d8: "booster_dim ?s8 = bdim" using u7 by (simp add: epoch_loop_booster_dim)
      have tk: "take ?r (py_range (boosting_round s7)) = py_range (int ?r)"
        using le br by (simp add: take_py_range)
      have len: "int (length (boosting_model_list ?s8)) =
          int (length (boosting_model_list self)) + int ?r * bdim"
        using cnt bd by simp
      have calls: "fit_calls ?s8 = fit_calls self @ round_dim_pairs (int ?r) bdim"
        using cnt tk by (simp add: round_dim_pairs_def)
      have bound: "int ?r \<le> max 0 (boosting_round self)" using le by linarith
      show ?thesis unfolding Let_def fin d8 using len cnt calls bound by simp
    qed
  qed
qed

text \<open>
  The two-round, two-class run: labels 0 and 1, \<open>booster_dim = 1\<close>, no early stop; both
  lists end with length 2.
\<close>

theorem guest_fit_one_booster_per_round_and_class_witness:
  "boosting_model_list demo_self = [] \<and> history_loss demo_self = [] \<and>
   rounds_completed (final (guest_fit demo_consts demo_env demo_self demo_data)) = 2 \<and>
   booster_dim (final (guest_fit demo_consts demo_env demo_self demo_data)) = 1 \<and>
   length (boosting_model_list (final (guest_fit demo_consts demo_env demo_self demo_data))) = 2 \<and>
   length (history_loss (final (guest_fit demo_consts demo_env demo_self demo_data))) = 2 \<and>
   fit_calls (final (guest_fit demo_consts demo_env demo_self demo_data)) = [(0, 0), (1, 0)]"
proof -
  have fresh: "boosting_model_list demo_self = []" "history_loss demo_self = []"
    "rounds_completed demo_self = 0" "fit_calls demo_self = []"
    by (simp_all add: demo_self_def rounds_completed_def)
  have r: "rounds_completed (final (guest_fit demo_consts demo_env demo_self demo_data)) = 2"
    by code_simp
  have d: "booster_dim (final (guest_fit demo_consts demo_env demo_self demo_data)) = 1"
    by code_simp
  have pairs: "round_dim_pairs 2 1 = [(0, 0), (1, 0)]"
    by code_simp
  show ?thesis
    using guest_fit_one_booster_per_round_and_class [of demo_consts demo_env demo_self demo_data]
      fresh r d pairs
    by (simp add: Let_def)
qed

section \<open>Hetero boosting: prediction\<close>

lemma py_index_in_range: "0 \<le> i \<Longrightarrow> i < int (length xs) \<Longrightarrow> py_index xs i = Inr (xs ! nat i)"
  by (simp add: py_index_def)

lemma replay_step_ignores:
  "replay_step E (self\<lparr>predict_y_hat := a, load_calls := c\<rparr>) data_inst = replay_step E self data_inst"
  by (rule ext, rule ext) (simp add: replay_step_def)

lemma predict_dim_loop_replay:
  assumes "\<forall>b \<in> set bs. 0 \<le> idx * booster_dim self + b \<and>
             idx * booster_dim self + b < int (length (boosting_model_list self))"
  shows "predict_dim_loop E data_inst idx bs self =
     Inr (self\<lparr>predict_y_hat := foldl (replay_step E self data_inst) (predict_y_hat self) (map (Pair idx) bs),
               load_calls := load_calls self @ map (load_call (booster_dim self)) (map (Pair idx) bs)\<rparr>)"
  using assms
proof (induction bs arbitrary: self)
  case Nil
  show ?case by simp
next
  case (Cons b bs)
  let ?s1 = "self\<lparr>predict_y_hat := replay_step E self data_inst (predict_y_hat self) (idx, b),
                   load_calls := load_calls self @ [load_call (booster_dim self) (idx, b)]\<rparr>"
  have step: "predict_booster E data_inst idx b self = Inr ?s1"
    using Cons.prems by (simp add: predict_booster_def py_index_in_range replay_step_def load_call_def Let_def)
  have "predict_dim_loop E data_inst idx bs ?s1 =
     Inr (?s1\<lparr>predict_y_hat := foldl (replay_step E ?s1 data_inst) (predict_y_hat ?s1) (map (Pair idx) bs),
               load_calls := load_calls ?s1 @ map (load_call (booster_dim ?s1)) (map (Pair idx) bs)\<rparr>)"
    by (rule Cons.IH) (use Cons.prems in simp)
  then show ?case using step by (simp add: replay_step_ignores)
qed

lemma predict_round_loop_replay:
  assumes "\<forall>idx \<in> set idxs. \<forall>b \<in> set (py_range (booster_dim self)).
             0 \<le> idx * booster_dim self + b \<and>
             idx * booster_dim self + b < int (length (boosting_model_list self))"
  shows "predict_round_loop E data_inst idxs self =
     Inr (self\<lparr>predict_y_hat := foldl (replay_step E self data_inst) (predict_y_hat self)
                  (concat (map (\<lambda>e. map (Pair e) (py_range (booster_dim self))) idxs)),
               load_calls := load_calls self @ map (load_call (booster_dim self))
                  (concat (map (\<lambda>e. map (Pair e) (py_range (booster_dim self))) idxs))\<rparr>)"
  using assms
proof (induction idxs arbitrary: self)
  case Nil
  show ?case by simp
next
  case (Cons i idxs)
  let ?d = "booster_dim self"
  let ?s1 = "self\<lparr>predict_y_hat := foldl (replay_step E self data_inst) (predict_y_hat self) (map (Pair i) (py_range ?d)),
               load_calls := load_calls self @ map (load_call ?d) (map (Pair i) (py_range ?d))\<rparr>"
  have inner: "predict_dim_loop E data_inst i (py_range ?d) self = Inr ?s1"
    by (rule predict_dim_loop_replay) (use Cons.prems in simp)
  have "predict_round_loop E data_inst idxs ?s1 =
     Inr (?s1\<lparr>predict_y_hat := foldl (replay_step E ?s1 data_inst) (predict_y_hat ?s1)
                  (concat (map (\<lambda>e. map (Pair e) (py_range (booster_dim ?s1))) idxs)),
               load_calls := load_calls ?s1 @ map (load_call (booster_dim ?s1))
                  (concat (map (\<lambda>e. map (Pair e) (py_range (booster_dim ?s1))) idxs))\<rparr>)"
    by (rule Cons.IH) (use Cons.prems in simp)
  then show ?case using inner by (simp add: replay_step_ignores)
qed

lemma whole_rounds_in_range:
  fixes n d :: int
  assumes d: "0 < d" and i: "0 \<le> i" "i < n div d" and b: "0 \<le> b" "b < d"
  shows "0 \<le> i * d + b \<and> i * d + b < n"
proof
  show "0 \<le> i * d + b" using d i b by simp
  have "i + 1 \<le> n div d" using i by simp
  then have "(i + 1) * d \<le> (n div d) * d" using d by (simp add: mult_right_mono)
  also have "\<dots> \<le> n"
    using d by (metis div_mult_mod_eq add_increasing2 order_refl pos_mod_sign)
  finally have "i * d + d \<le> n" by (simp add: algebra_simps)
  then show "i * d + b < n" using b by linarith
qed

lemma py_range_mem: "x \<in> set (py_range n) \<longleftrightarrow> 0 \<le> x \<and> x < n"
  by (auto simp: py_range_def image_iff intro: bexI[of _ "nat x"])

lemma replay_step_init:
  "replay_step E (self\<lparr>predict_y_hat := a\<rparr>) data_inst = replay_step E self data_inst"
  by (rule ext, rule ext) (simp add: replay_step_def)

lemma py_range_nonpos: "n \<le> 0 \<Longrightarrow> py_range n = []"
  by (simp add: py_range_def)

lemma guest_predict_zero_dim:
  "booster_dim self = 0 \<Longrightarrow> guest_predict E self data_inst = Inl ZeroDivisionError"
  by (simp add: guest_predict_def py_floordiv_def Let_def)

lemma predict_rounds_replay:
  assumes nz: "booster_dim self \<noteq> 0"
  shows "predict_round_loop E data_inst
           (py_range (int (length (boosting_model_list self)) div booster_dim self)) self =
         Inr (self\<lparr>predict_y_hat := foldl (replay_step E self data_inst) (predict_y_hat self)
                      (round_dim_pairs (int (length (boosting_model_list self)) div booster_dim self)
                         (booster_dim self)),
                   load_calls := load_calls self @ map (load_call (booster_dim self))
                      (round_dim_pairs (int (length (boosting_model_list self)) div booster_dim self)
                         (booster_dim self))\<rparr>)"
proof -
  let ?d = "booster_dim self"
  let ?n = "int (length (boosting_model_list self))"
  have rng: "\<forall>idx \<in> set (py_range (?n div ?d)). \<forall>b \<in> set (py_range ?d).
      0 \<le> idx * ?d + b \<and> idx * ?d + b < ?n"
  proof (cases "0 < ?d")
    case True
    then show ?thesis by (simp add: py_range_mem whole_rounds_in_range)
  next
    case False
    then have "?d < 0" using nz by simp
    then have "?n div ?d \<le> 0" by (simp add: div_nonneg_neg_le0)
    then show ?thesis by (simp add: py_range_nonpos)
  qed
  show ?thesis
    unfolding round_dim_pairs_def by (rule predict_round_loop_replay) (rule rng)
qed

text \<open>
  Claim C2.  \<^verbatim>\<open>HeteroBoostingGuest.predict\<close> returns what the replay computes: the
  accumulator starts as the aligned table with every sample mapped to \<open>init_score\<close>,
  \<open>rounds = len(boosting_model_list) // booster_dim\<close>, the boosters are loaded in
  (round, dim) order from positions \<open>idx * booster_dim + booster_idx\<close> (no index is out
  of range), each score is accumulated at its dimension, and the accumulator goes through
  \<^verbatim>\<open>score_to_predict_result\<close>.  (With \<open>booster_dim = 0\<close> the floor division raises.)
\<close>

theorem guest_predict_replays_rounds_by_dims:
  assumes "booster_dim self \<noteq> 0"
  shows "\<exists>self'. guest_predict E self data_inst = Inr (predict_replay E self data_inst, self') \<and>
           predict_y_hat self' = replay_accumulate E self (data_alignment E data_inst) \<and>
           load_calls self' = load_calls self @
             map (load_call (booster_dim self))
               (round_dim_pairs (int (length (boosting_model_list self)) div booster_dim self)
                  (booster_dim self))"
proof -
  let ?data = "data_alignment E data_inst"
  let ?s1 = "self\<lparr>predict_y_hat := mapValues (\<lambda>v. init_score self) ?data\<rparr>"
  have rounds: "py_floordiv (int (length (boosting_model_list ?s1))) (booster_dim ?s1) =
      Inr (int (length (boosting_model_list self)) div booster_dim self)"
    using assms by (simp add: py_floordiv_def)
  have nz1: "booster_dim ?s1 \<noteq> 0" using assms by simp
  have loop: "predict_round_loop E ?data
      (py_range (int (length (boosting_model_list self)) div booster_dim self)) ?s1 =
      Inr (?s1\<lparr>predict_y_hat := replay_accumulate E self ?data,
                load_calls := load_calls self @ map (load_call (booster_dim self))
                  (round_dim_pairs (int (length (boosting_model_list self)) div booster_dim self)
                     (booster_dim self))\<rparr>)"
    using predict_rounds_replay[OF nz1, of E ?data]
    by (simp add: replay_accumulate_def replay_step_init)
  show ?thesis
    unfolding guest_predict_def Let_def rounds
    by (simp add: loop predict_replay_def)
qed

theorem guest_predict_replays_rounds_by_dims_witness:
  "booster_dim demo_trained \<noteq> 0 \<and>
   (\<exists>self'. guest_predict demo_env demo_trained demo_data =
        Inr (predict_replay demo_env demo_trained demo_data, self') \<and>
      load_calls self' = [(0, 0, 0), (1, 0, 1), (2, 1, 0), (3, 1, 1)]) \<and>
   predict_replay demo_env demo_trained demo_data = [(0, 6), (1, 6)]"
proof -
  have nz: "booster_dim demo_trained \<noteq> 0" by (simp add: demo_trained_def)
  have calls: "load_calls demo_trained @
      map (load_call (booster_dim demo_trained))
        (round_dim_pairs (int (length (boosting_model_list demo_trained)) div booster_dim demo_trained)
           (booster_dim demo_trained)) = [(0, 0, 0), (1, 0, 1), (2, 1, 0), (3, 1, 1)]"
    by code_simp
  have res: "predict_replay demo_env demo_trained demo_data = [(0, 6), (1, 6)]"
    by code_simp
  show ?thesis
    using guest_predict_replays_rounds_by_dims [OF nz, of demo_env demo_data] nz res
    unfolding calls by auto
qed











section \<open>Hetero boosting: the encryption method\<close>





section \<open>Hetero boosting: the label check\<close>

text \<open>
  When the class set is a zero-based range of ints, \<^verbatim>\<open>check_label\<close> leaves the label
  table alone and returns the sorted classes, their number and the booster dimension.
\<close>

lemma check_label_range_from_zero:
  assumes "task_type self = CLASSIFICATION C"
    and "validate_label E (data_bin self) = (n, cls)"
    and "range_from_zero_loop cls (length cls) True"
    and "py_sorted cls = Inr sorted_cls"
  shows "check_label C E self = Inr ((sorted_cls, n, if n > 2 then n else 1), self)"
  using assms by (simp add: check_label_def Let_def)

text \<open>
  When it is not, the mapping comes from the fields \<^verbatim>\<open>self.classes_\<close> and
  \<^verbatim>\<open>self.num_classes\<close> as they are before \<^verbatim>\<open>fit\<close> assigns them: on an object whose
  class list is still empty every label misses the mapping.
\<close>

lemma check_label_remap_on_empty_classes:
  assumes "task_type self = CLASSIFICATION C"
    and "validate_label E (data_bin self) = (n, cls)"
    and "\<not> range_from_zero_loop cls (length cls) True"
    and "py_sorted cls = Inr sorted_cls"
    and "classes self = []" and "y self \<noteq> []"
  shows "check_label C E self = Inl KeyError"
proof -
  obtain key c rest where ys: "y self = (key, c) # rest"
    using assms(6) by (cases "y self") auto
  have "dict_zip_range [] (num_classes self) c = None"
    by (simp add: dict_zip_range_def)
  then have "remap_labels (dict_zip_range (classes self) (num_classes self)) (y self) = Inl KeyError"
    using ys assms(5) by simp
  then show ?thesis using assms(1-4) by (simp add: check_label_def Let_def)
qed

text \<open>
  Claim C7.  On a fresh guest (\<^verbatim>\<open>self.classes_\<close> still empty, since \<^verbatim>\<open>fit\<close> assigns
  it only after \<^verbatim>\<open>check_label\<close> returns) with the classes 1 and 2, the class mapping
  is built from the empty field instead of the local class list: it has no key, the
  remapping raises \<^verbatim>\<open>KeyError\<close>, and \<^verbatim>\<open>fit\<close> stops there with the labels not
  remapped.
\<close>

theorem check_label_remap_raises_on_fresh_guest:
  "dict_zip_range (classes demo_self) (num_classes demo_self) (LInt 1) = None \<and>
   check_label demo_consts demo_env_12 (demo_self\<lparr>y := demo_data_12\<rparr>) = Inl KeyError \<and>
   raised (guest_fit demo_consts demo_env_12 demo_self demo_data_12) = Some KeyError \<and>
   y (final (guest_fit demo_consts demo_env_12 demo_self demo_data_12)) = demo_data_12"
  by code_simp

section \<open>Hetero FTL: masks\<close>
























section \<open>Hetero FTL: the loss\<close>







section \<open>Hetero k-means\<close>

text \<open>
  No message the arbiter sends in a round answers a client's \<^verbatim>\<open>arbiter_tol.get\<close>,
  whatever round tag the client asks for: the two \<^verbatim>\<open>arbiter_tol.remote\<close> calls carry
  no suffix.
\<close>

lemma arbiter_round_tol_untagged:
  assumes "arbiter_round ca self = Finished n s"
  shows "km_get (drop (length (arb_out self)) (arb_out s)) me tv_arbiter_tol (TupleSuffix [r]) = None"
  using assms
  by (auto simp: arbiter_round_def Let_def arb_remote_def
      split: option.splits km_payload.splits)

text \<open>
  This does not hang on how a tag is built from a suffix: the broadcast has the same tag
  in every round, so whenever the requests of two rounds have different tags it misses
  at least one of them.
\<close>

lemma untagged_broadcast_misses_a_round:
  fixes tag_of :: "suffix \<Rightarrow> 't"
  assumes "tag_of (TupleSuffix [r]) \<noteq> tag_of (TupleSuffix [r'])"
  shows "tag_of NoSuffix \<noteq> tag_of (TupleSuffix [r]) \<or> tag_of NoSuffix \<noteq> tag_of (TupleSuffix [r'])"
  using assms by auto

text \<open>
  Claim C5.  Round 0 of the concrete run: the arbiter sends the assignment with suffix
  \<open>0\<close> and the combined tolerance with no suffix.  A guest that has this output in its
  inbox receives the assignment under the tag \<open>(0,)\<close> it asks for, and blocks in
  \<^verbatim>\<open>arbiter_tol.get(suffix=(0,))\<close>: the tolerance is there, under the empty tag.
\<close>

theorem arbiter_tol_sent_without_round_tag:
  "demo_arbiter_out (1 / 8) (1 / 8) =
     [KMsg tv_cluster_result (IntSuffix 0) GUEST (- 1) (AssignP [(0, 0), (1, 1)]),
      KMsg tv_cluster_result (IntSuffix 0) HOST (- 1) (AssignP [(0, 0), (1, 1)]),
      KMsg tv_arbiter_tol NoSuffix HOST (- 1) (TolP (1 / 4)),
      KMsg tv_arbiter_tol NoSuffix GUEST (- 1) (TolP (1 / 4))] \<and>
   km_get (demo_arbiter_out (1 / 8) (1 / 8)) GUEST tv_cluster_result (TupleSuffix [0]) =
     Some (AssignP [(0, 0), (1, 1)]) \<and>
   km_get (demo_arbiter_out (1 / 8) (1 / 8)) GUEST tv_arbiter_tol (TupleSuffix [0]) = None \<and>
   fate_tag NoSuffix \<noteq> fate_tag (TupleSuffix [0]) \<and>
   how_ended (client_round_tail (1 / 8) (PyList [0, 1]) [(0, 0), (1, 1)]
      (demo_client (demo_arbiter_out (1 / 8) (1 / 8)))) = Blocks tv_arbiter_tol [0]"
  by code_simp

text \<open>
  Claim C4.  With both local tolerances 1/8 and the threshold 1/2 the arbiter decides to
  stop (\<open>n = 1/4 < tol\<close>) and ends its \<^verbatim>\<open>fit\<close> in round 0; what it has broadcast is
  the number 1/4, not the decision.  A guest that receives this value for round 0 does
  not break (\<open>1/4 \<noteq> 1\<close>) and enters round 1.  With both local tolerances 1/2 it is
  the other way round: the arbiter goes on (\<open>n = 1\<close> is not below 1/2) and waits for the
  distances of round 1, and the guest that receives 1 breaks.
\<close>

theorem arbiter_broadcasts_tolerance_not_stop_flag:
  "how_ended (arbiter_fit demo_assign (demo_arbiter (1 / 8) (1 / 8))) = Returns () \<and>
   arb_n_iter (end_state (arbiter_fit demo_assign (demo_arbiter (1 / 8) (1 / 8)))) = 0 \<and>
   filter (on_chan tv_arbiter_tol) (demo_arbiter_out (1 / 8) (1 / 8)) =
     [KMsg tv_arbiter_tol NoSuffix HOST (- 1) (TolP (1 / 4)),
      KMsg tv_arbiter_tol NoSuffix GUEST (- 1) (TolP (1 / 4))] \<and>
   how_ended (client_round_tail (1 / 8) (PyList [0, 1]) [(0, 0), (1, 1)]
      (demo_client [KMsg tv_arbiter_tol (TupleSuffix [0]) GUEST (- 1) (TolP (1 / 4))])) =
     Returns False \<and>
   cl_n_iter (end_state (client_round_tail (1 / 8) (PyList [0, 1]) [(0, 0), (1, 1)]
      (demo_client [KMsg tv_arbiter_tol (TupleSuffix [0]) GUEST (- 1) (TolP (1 / 4))]))) = 1 \<and>
   how_ended (arbiter_fit demo_assign (demo_arbiter (1 / 2) (1 / 2))) = Blocks tv_guest_dist [1] \<and>
   filter (on_chan tv_arbiter_tol) (demo_arbiter_out (1 / 2) (1 / 2)) =
     [KMsg tv_arbiter_tol NoSuffix HOST (- 1) (TolP 1),
      KMsg tv_arbiter_tol NoSuffix GUEST (- 1) (TolP 1)] \<and>
   how_ended (client_round_tail (1 / 2) (PyList [0, 1]) [(0, 0), (1, 1)]
      (demo_client [KMsg tv_arbiter_tol (TupleSuffix [0]) GUEST (- 1) (TolP 1)])) =
     Returns True"
  by code_simp

text \<open>The first half of the client's round never hands a tolerance to the second half.\<close>

lemma client_round_head_never_returns:
  "client_round_head E data_instances centroids self \<noteq> Finished x s"
  by (auto simp: client_round_head_def Let_def split: sum.splits option.splits km_payload.splits)

text \<open>With at least one centroid, \<^verbatim>\<open>centroid_cal\<close> never returns a list.\<close>

lemma centroid_cal_loop_from_none:
  "centroid_cal_loop E cr d kks PyNone \<noteq> Inr (PyList cs)"
  by (cases kks) (auto split: sum.splits)

lemma centroid_cal_never_a_list:
  assumes "0 < k"
  shows "centroid_cal E k cr d \<noteq> Inr (PyList cs)"
proof -
  obtain kk rest where "py_range k = kk # rest"
    using assms by (cases "py_range k") (auto simp: py_range_def)
  then show ?thesis
    by (cases "mean_of_assigned E cr d kk") (simp_all add: centroid_cal_def centroid_cal_loop_from_none)
qed

text \<open>
  A client's \<^verbatim>\<open>fit\<close> with rounds to run never completes one: it blocks or raises in the
  first half of the first round, having sent at most its distances and no tolerance.
\<close>

lemma client_fit_never_sends_tolerance:
  assumes "cl_n_iter self < cl_max_iter self"
  shows "how_ended (client_fit E self data_instances) \<noteq> Returns () \<and>
         filter (on_chan (client_tol self)) (cl_out (end_state (client_fit E self data_instances))) =
           filter (on_chan (client_tol self)) (cl_out self)"
proof -
  let ?h = "client_round_head E data_instances PyNone self"
  have out: "filter (on_chan (client_tol self)) (cl_out (end_state ?h)) =
      filter (on_chan (client_tol self)) (cl_out self)"
    by (auto simp: client_round_head_def Let_def cl_remote_def client_tol_def client_dist_def
        split: sum.splits option.splits km_payload.splits)
  show ?thesis
  proof (cases ?h)
    case (Finished x s)
    then show ?thesis using client_round_head_never_returns[of E data_instances PyNone self x s] by simp
  next
    case (Blocked c t s)
    then have "client_fit E self data_instances = Blocked c t s"
      using assms by (simp add: client_fit_def client_loop.simps client_round_def)
    then show ?thesis using out Blocked by simp
  next
    case (Raised e s)
    then have "client_fit E self data_instances = Raised e s"
      using assms by (simp add: client_fit_def client_loop.simps client_round_def)
    then show ?thesis using out Raised by simp
  qed
qed

text \<open>
  Claim C6.  With two centroids and a mean computation that works, \<^verbatim>\<open>centroid_cal\<close>
  raises in its second pass; with one centroid it returns \<^verbatim>\<open>None\<close>, not a list of one
  centroid.  The client's \<^verbatim>\<open>fit\<close> on the two sample points raises in the distance
  computation (the centroids it starts from are \<^verbatim>\<open>None\<close>), and on an empty table in
  \<^verbatim>\<open>centroid_cal\<close>; with no centroid at all it raises at \<^verbatim>\<open>np.sum\<close>.  In no case is a
  tolerance sent.
\<close>

theorem client_computes_no_centroids_and_no_tolerance:
  "centroid_cal demo_client_env 2 [(0, 0), (1, 1)] demo_points = Inl AttributeError \<and>
   centroid_cal demo_client_env 1 [(0, 0), (1, 1)] demo_points = Inr PyNone \<and>
   how_ended (client_fit demo_client_env (demo_client (demo_arbiter_out (1 / 8) (1 / 8))) demo_points) =
     Raises TypeError \<and>
   cl_out (end_state
     (client_fit demo_client_env (demo_client (demo_arbiter_out (1 / 8) (1 / 8))) demo_points)) = [] \<and>
   how_ended (client_fit demo_client_env (demo_client (demo_arbiter_out (1 / 8) (1 / 8))) []) =
     Raises AttributeError \<and>
   cl_out (end_state (client_fit demo_client_env (demo_client (demo_arbiter_out (1 / 8) (1 / 8))) [])) =
     [KMsg tv_guest_dist (TupleSuffix [0]) ARBITER 0 (DistP [])] \<and>
   how_ended (client_fit demo_client_env
      ((demo_client (demo_arbiter_out (1 / 8) (1 / 8)))\<lparr>cl_k := 0\<rparr>) []) = Raises NameError"
  by code_simp

text \<open>What a \<open>get\<close> delivers is of the kind its variable carries.\<close>

lemma km_get_carries: "km_get inbox me c s = Some v \<Longrightarrow> carries c v"
  by (induction inbox me c s rule: km_get.induct) (auto split: if_splits)

lemma arbiter_round_kinds:
  "arbiter_round ca self \<noteq> Raised e s"
proof -
  have d: "km_get inbox me tv_guest_dist sf = Some v \<Longrightarrow> \<exists>d. v = DistP d" for inbox me sf and v :: "'a km_payload"
    by (drule km_get_carries) (cases v; simp)
  have h: "km_get inbox me tv_host_dist sf = Some v \<Longrightarrow> \<exists>d. v = DistP d" for inbox me sf and v :: "'a km_payload"
    by (drule km_get_carries) (cases v; simp)
  have g: "km_get inbox me tv_guest_tol sf = Some v \<Longrightarrow> \<exists>t. v = TolP t" for inbox me sf and v :: "'a km_payload"
    by (drule km_get_carries) (cases v; simp)
  have k: "km_get inbox me tv_host_tol sf = Some v \<Longrightarrow> \<exists>t. v = TolP t" for inbox me sf and v :: "'a km_payload"
    by (drule km_get_carries) (cases v; simp)
  show ?thesis
    by (auto simp: arbiter_round_def Let_def arb_remote_def
        split: option.splits km_payload.splits dest: d h g k)
qed

end
